theory Spec2Isabelle
  imports Complex_Main "HOL-Library.Word"
begin

section \<open>Values of the C++ types used by \<^verbatim>\<open>mert/Scorer.h\<close>\<close>

text \<open>
  \<^verbatim>\<open>std::size_t\<close> is a 64-bit unsigned integer: subtraction wraps around, which
  the guard \<^verbatim>\<open>(end - start) < 1\<close> of \<^verbatim>\<open>score_average\<close> depends on.
\<close>

type_synonym size_t = "64 word"

subsection \<open>\<^verbatim>\<open>float\<close>: IEEE 754 binary32\<close>

text \<open>
  A \<^verbatim>\<open>float\<close> is a NaN, an infinity or a finite number. Finite numbers are kept by
  their exact value; every arithmetic result is rounded to the nearest binary32 number,
  ties to even, and overflows to an infinity, as the hardware does. Two things are not
  tracked, because no operation used by the scorer observes them: the payload of a NaN
  and the sign of a zero (\<^verbatim>\<open><\<close>, \<^verbatim>\<open>+\<close> and division by a positive count cannot
  tell \<^verbatim>\<open>+0\<close> from \<^verbatim>\<open>-0\<close>; the model's zero behaves as \<^verbatim>\<open>+0\<close>).
\<close>

datatype float = NaN | PosInf | NegInf | Finite real

definition pow2 :: "int \<Rightarrow> real" where
  "pow2 e = (if 0 \<le> e then 2 ^ nat e else 1 / 2 ^ nat (- e))"

text \<open>
  The binade of a magnitude \<open>a\<close>: the exponent \<open>e\<close> with \<open>2^e \<le> a < 2^(e+1)\<close>, kept
  within the exponent range of binary32 (\<open>-126\<close> for zero and the subnormal numbers,
  \<open>127\<close> for everything from \<open>2^127\<close> up). The search walks up from \<open>0\<close> for
  magnitudes of at least one and down from \<open>-1\<close> for the others.
\<close>

function binade_up :: "real \<Rightarrow> int \<Rightarrow> int" where
  "binade_up a e = (if e < 127 \<and> pow2 (e + 1) \<le> a then binade_up a (e + 1) else e)"
  by pat_completeness auto
termination
  by (relation "measure (\<lambda>(a, e). nat (127 - e))") auto

function binade_down :: "real \<Rightarrow> int \<Rightarrow> int" where
  "binade_down a e = (if - 126 < e \<and> a < pow2 e then binade_down a (e - 1) else e)"
  by pat_completeness auto
termination
  by (relation "measure (\<lambda>(a, e). nat (e + 126))") auto

declare binade_up.simps [simp del] binade_down.simps [simp del]

definition binade :: "real \<Rightarrow> int" where
  "binade a = (if 1 \<le> a then binade_up a 0 else binade_down a (- 1))"

text \<open>The distance between neighbouring binary32 numbers in the binade of \<open>a\<close>.\<close>

definition quantum :: "real \<Rightarrow> real" where
  "quantum a = pow2 (binade a - 23)"

definition round_ties_even :: "real \<Rightarrow> int" where
  "round_ties_even x =
     (let f = \<lfloor>x\<rfloor>; d = x - of_int f
      in if d < 1 / 2 then f
         else if 1 / 2 < d then f + 1
         else if even f then f else f + 1)"

text \<open>
  Rounding of an exact result to binary32: the magnitude is rounded to a multiple of
  the quantum of its binade (24 significant bits), to nearest, ties to even; a rounded
  magnitude of \<open>2^128\<close> or more is an infinity.
\<close>

definition round_magnitude :: "real \<Rightarrow> real" where
  "round_magnitude a = of_int (round_ties_even (a / quantum a)) * quantum a"

definition round32 :: "real \<Rightarrow> float" where
  "round32 q =
     (if pow2 128 \<le> round_magnitude \<bar>q\<bar> then (if q < 0 then NegInf else PosInf)
      else Finite (if q < 0 then - round_magnitude \<bar>q\<bar> else round_magnitude \<bar>q\<bar>))"

text \<open>\<^verbatim>\<open>std::numeric_limits<float>::max()\<close>, that is \<open>(2^24 - 1) * 2^104\<close>.\<close>

definition FLT_MAX :: real where
  "FLT_MAX = (2 ^ 24 - 1) * 2 ^ 104"

text \<open>\<^verbatim>\<open>x + y\<close> on floats.\<close>

fun fadd :: "float \<Rightarrow> float \<Rightarrow> float" where
  "fadd NaN y = NaN"
| "fadd x NaN = NaN"
| "fadd PosInf NegInf = NaN"
| "fadd NegInf PosInf = NaN"
| "fadd PosInf y = PosInf"
| "fadd NegInf y = NegInf"
| "fadd x PosInf = PosInf"
| "fadd x NegInf = NegInf"
| "fadd (Finite a) (Finite b) = round32 (a + b)"

text \<open>\<^verbatim>\<open>x / y\<close> on floats.\<close>

fun fdiv :: "float \<Rightarrow> float \<Rightarrow> float" where
  "fdiv NaN y = NaN"
| "fdiv x NaN = NaN"
| "fdiv (Finite a) (Finite b) =
     (if b = 0 then (if a = 0 then NaN else if 0 < a then PosInf else NegInf)
      else round32 (a / b))"
| "fdiv (Finite a) y = Finite 0"
| "fdiv PosInf (Finite b) = (if b < 0 then NegInf else PosInf)"
| "fdiv NegInf (Finite b) = (if b < 0 then PosInf else NegInf)"
| "fdiv x y = NaN"

text \<open>\<^verbatim>\<open>x < y\<close> on floats: false as soon as one side is a NaN.\<close>

fun fless :: "float \<Rightarrow> float \<Rightarrow> bool" where
  "fless NaN y = False"
| "fless x NaN = False"
| "fless x NegInf = False"
| "fless PosInf y = False"
| "fless NegInf y = True"
| "fless x PosInf = True"
| "fless (Finite a) (Finite b) = (a < b)"

text \<open>\<^verbatim>\<open>x <= y\<close> on floats: false as soon as one side is a NaN.\<close>

fun fle :: "float \<Rightarrow> float \<Rightarrow> bool" where
  "fle NaN y = False"
| "fle x NaN = False"
| "fle NegInf y = True"
| "fle x PosInf = True"
| "fle x NegInf = False"
| "fle PosInf y = False"
| "fle (Finite a) (Finite b) = (a \<le> b)"

text \<open>The implicit conversion of a \<^verbatim>\<open>size_t\<close> operand to \<^verbatim>\<open>float\<close>.\<close>

definition float_of_size_t :: "size_t \<Rightarrow> float" where
  "float_of_size_t n = round32 (of_nat (unat n))"

subsection \<open>Outcomes\<close>

text \<open>
  A call either returns a value (\<open>Inr\<close>) or does not (\<open>Inl\<close>). \<open>UndefinedBehaviour\<close>
  marks a read of a \<^verbatim>\<open>std::vector\<close> outside its bounds with \<^verbatim>\<open>operator[]\<close>, for
  which C++ defines no result. The other values are the error conditions that the
  specification names; a scorer raises them as exceptions.
\<close>

datatype error =
    UndefinedBehaviour
  | ReferencesNotSet
  | ScoreDataNotLoaded
  | InvalidFactor
  | FilterFailed
  | DataShapeMismatch

section \<open>Regularisation strategies\<close>

text \<open>
  Modelled from the spec: \<^verbatim>\<open>statscores_t\<close> (declared in \<^verbatim>\<open>Types.h\<close>, which is not
  part of the sources) is a \<^verbatim>\<open>std::vector\<close> of scalar scores. The scalars are
  floats, as are the results and the accumulators of \<^verbatim>\<open>score_min\<close> and
  \<^verbatim>\<open>score_average\<close>.
\<close>

type_synonym statscores_t = "float list"

text \<open>\<^verbatim>\<open>scores[i]\<close>: defined only below \<^verbatim>\<open>scores.size()\<close>.\<close>

definition scores_at :: "statscores_t \<Rightarrow> size_t \<Rightarrow> float option" where
  "scores_at scores i = (if unat i < length scores then Some (scores ! unat i) else None)"

lemma unat_succ: "(i::size_t) < e \<Longrightarrow> unat (i + 1) = Suc (unat i)"
  by unat_arith

text \<open>
  The loop of \<^verbatim>\<open>score_min\<close>:
  \<^verbatim>\<open>for (size_t i = start; i < end; ++i) { if (scores[i] < min) { min = scores[i]; } }\<close>
\<close>

function score_min_loop :: "statscores_t \<Rightarrow> size_t \<Rightarrow> size_t \<Rightarrow> float \<Rightarrow> error + float" where
  "score_min_loop scores i end' min' =
     (if i < end'
      then (case scores_at scores i of
              None \<Rightarrow> Inl UndefinedBehaviour
            | Some x \<Rightarrow> score_min_loop scores (i + 1) end' (if fless x min' then x else min'))
      else Inr min')"
  by pat_completeness auto
termination
  by (relation "measure (\<lambda>(scores, i, end', min'). unat end' - unat i)")
     (auto simp: unat_succ word_less_nat_alt)

declare score_min_loop.simps [simp del]

definition score_min :: "statscores_t \<Rightarrow> size_t \<Rightarrow> size_t \<Rightarrow> error + float" where
  "score_min scores start end' = score_min_loop scores start end' (Finite FLT_MAX)"

text \<open>
  The loop of \<^verbatim>\<open>score_average\<close>:
  \<^verbatim>\<open>for (size_t j = start; j < end; ++j) { total += scores[j]; }\<close>
\<close>

function score_average_loop :: "statscores_t \<Rightarrow> size_t \<Rightarrow> size_t \<Rightarrow> float \<Rightarrow> error + float" where
  "score_average_loop scores j end' total' =
     (if j < end'
      then (case scores_at scores j of
              None \<Rightarrow> Inl UndefinedBehaviour
            | Some x \<Rightarrow> score_average_loop scores (j + 1) end' (fadd total' x))
      else Inr total')"
  by pat_completeness auto
termination
  by (relation "measure (\<lambda>(scores, j, end', total'). unat end' - unat j)")
     (auto simp: unat_succ word_less_nat_alt)

declare score_average_loop.simps [simp del]

definition score_average :: "statscores_t \<Rightarrow> size_t \<Rightarrow> size_t \<Rightarrow> error + float" where
  "score_average scores start end' =
     (if end' - start < 1 then Inr (Finite 0)
      else (case score_average_loop scores start end' (Finite 0) of
              Inl e \<Rightarrow> Inl e
            | Inr total' \<Rightarrow> Inr (fdiv total' (float_of_size_t (end' - start)))))"

text \<open>The elements of the index range \<open>[start, end)\<close>, for ranges inside the vector.\<close>

definition range_scores :: "statscores_t \<Rightarrow> size_t \<Rightarrow> size_t \<Rightarrow> float list" where
  "range_scores scores start end' = take (unat end' - unat start) (drop (unat start) scores)"


fun float_value :: "float \<Rightarrow> real" where
  "float_value (Finite a) = a"
| "float_value x = 0"

text \<open>The arithmetic mean of the range in exact arithmetic, without any rounding.\<close>

definition exact_mean :: "statscores_t \<Rightarrow> size_t \<Rightarrow> size_t \<Rightarrow> real" where
  "exact_mean scores start end' =
     sum_list (map float_value (range_scores scores start end'))
       / real (length (range_scores scores start end'))"

text \<open>
  The running sum of \<^verbatim>\<open>score_average\<close> stays exact on a list of scores: every score
  is finite and every addition, started from the sum \<open>t\<close>, gives a binary32 number
  without rounding.
\<close>

fun sums_exact :: "real \<Rightarrow> float list \<Rightarrow> bool" where
  "sums_exact t [] = True"
| "sums_exact t (Finite a # xs) = (round32 (t + a) = Finite (t + a) \<and> sums_exact (t + a) xs)"
| "sums_exact t (x # xs) = False"

text \<open>
  No operation of \<^verbatim>\<open>score_average\<close> rounds on the range: the running sum stays exact,
  the count \<^verbatim>\<open>end - start\<close> converts to \<^verbatim>\<open>float\<close> unchanged, and the quotient is a
  binary32 number.
\<close>

definition no_rounding :: "statscores_t \<Rightarrow> size_t \<Rightarrow> size_t \<Rightarrow> bool" where
  "no_rounding scores start end' =
     (sums_exact 0 (range_scores scores start end')
      \<and> float_of_size_t (end' - start) = Finite (real (unat (end' - start)))
      \<and> round32 (exact_mean scores start end') = Finite (exact_mean scores start end'))"

text \<open>
  The comparison \<^verbatim>\<open>score_min(scores, start, end) <= score_average(scores, start, end)\<close>
  of the two returned floats; it is false when one of the calls returns no value.
\<close>

definition min_le_average :: "statscores_t \<Rightarrow> size_t \<Rightarrow> size_t \<Rightarrow> bool" where
  "min_le_average scores start end' =
     (case score_min scores start end' of
        Inl e \<Rightarrow> False
      | Inr m \<Rightarrow> (case score_average scores start end' of
                    Inl e \<Rightarrow> False
                  | Inr a \<Rightarrow> fle m a))"

section \<open>The class \<^verbatim>\<open>Scorer\<close>\<close>

text \<open>
  \<^verbatim>\<open>mert::Vocabulary\<close> is only declared in the header; no member function modelled
  here looks inside it.
\<close>

typedecl Vocabulary

text \<open>
  Modelled from the spec: \<^verbatim>\<open>ScoreStats\<close> (only declared in the header) is one
  statistics entry, an ordered fixed-length sequence of numeric fields.
\<close>

type_synonym ScoreStats = "int list"

text \<open>
  Modelled from the spec: \<^verbatim>\<open>ScoreData\<close> (its header is not part of the sources) is
  the statistics table, an object exposing its row count (\<^verbatim>\<open>size()\<close>) and the access
  to the entry of a candidate in a row.
\<close>

record ScoreData =
  table_size :: nat
  table_entry :: "nat \<Rightarrow> nat \<Rightarrow> ScoreStats"

text \<open>
  Modelled from the spec: \<^verbatim>\<open>PreProcessFilter\<close> (only declared in the header) wraps
  the external filter command: it receives the sentence and returns the processed
  sentence, or fails when the command exits with a non-zero status.
\<close>

type_synonym PreProcessFilter = "string \<Rightarrow> error + string"

text \<open>The data members of \<^verbatim>\<open>Scorer\<close>; a pointer is \<open>None\<close> when it is null.\<close>

record Scorer =
  m_name :: string
  m_vocab :: "Vocabulary option"
  m_config :: "string \<rightharpoonup> string"
  m_factors :: "int list"
  m_filter :: "PreProcessFilter option"
  m_score_data :: "ScoreData option"
  m_enable_preserve_case :: bool

text \<open>Sequencing of two calls: an exception of the first skips the second.\<close>

definition then_call :: "error + 'a \<Rightarrow> ('a \<Rightarrow> error + 'b) \<Rightarrow> error + 'b" where
  "then_call r f = (case r of Inl e \<Rightarrow> Inl e | Inr v \<Rightarrow> f v)"

subsection \<open>Reference files and statistics extraction\<close>

text \<open>\<^verbatim>\<open>virtual void setReferenceFiles(...) { /* do nothing */ }\<close>\<close>

definition setReferenceFiles :: "Scorer \<Rightarrow> string list \<Rightarrow> error + Scorer" where
  "setReferenceFiles sc referenceFiles = Inr sc"

text \<open>
  \<^verbatim>\<open>virtual void prepareStats(std::size_t sindex, const std::string& text, ScoreStats& entry)\<close>
  with the body \<^verbatim>\<open>{ /* do nothing. */ }\<close>: the result is the entry after the call.
\<close>

definition prepareStats :: "Scorer \<Rightarrow> size_t \<Rightarrow> string \<Rightarrow> ScoreStats \<Rightarrow> error + ScoreStats" where
  "prepareStats sc sindex text' entry = Inr entry"

text \<open>
  \<^verbatim>\<open>atoi\<close> of the C library: leading white space is skipped, an optional sign is
  read, then decimal digits up to the first other character; without digits the value
  is 0. A value that an \<^verbatim>\<open>int\<close> (32 bits) cannot hold has no defined result (\<open>None\<close>).
\<close>

definition isspace :: "char \<Rightarrow> bool" where
  "isspace c = (of_char c \<in> {32, 9, 10, 11, 12, 13 :: nat})"

definition isdigit :: "char \<Rightarrow> bool" where
  "isdigit c = (48 \<le> (of_char c :: nat) \<and> (of_char c :: nat) \<le> 57)"

fun digits_value :: "int \<Rightarrow> string \<Rightarrow> int" where
  "digits_value acc [] = acc"
| "digits_value acc (c # cs) =
     (if isdigit c then digits_value (acc * 10 + (of_char c - 48)) cs else acc)"

definition atoi_value :: "string \<Rightarrow> int" where
  "atoi_value s =
     (case dropWhile isspace s of
        [] \<Rightarrow> 0
      | c # cs \<Rightarrow>
          if c = CHR ''-'' then - digits_value 0 cs
          else if c = CHR ''+'' then digits_value 0 cs
          else digits_value 0 (c # cs))"

definition atoi :: "string \<Rightarrow> int option" where
  "atoi s = (if - (2 ^ 31) \<le> atoi_value s \<and> atoi_value s < 2 ^ 31 then Some (atoi_value s) else None)"

text \<open>
  The string-indexed overload
  \<^verbatim>\<open>this->prepareStats(static_cast<std::size_t>(atoi(sindex.c_str())), text, entry)\<close>.
  The call is virtual: \<open>impl\<close> is the \<^verbatim>\<open>size_t\<close> overload of the object's class. The
  cast of an \<^verbatim>\<open>int\<close> to \<^verbatim>\<open>size_t\<close> is its value modulo \<open>2^64\<close>.
\<close>

definition prepareStats_str ::
  "(size_t \<Rightarrow> string \<Rightarrow> ScoreStats \<Rightarrow> error + ScoreStats) \<Rightarrow> string \<Rightarrow> string \<Rightarrow> ScoreStats
     \<Rightarrow> error + ScoreStats" where
  "prepareStats_str impl sindex text' entry =
     (case atoi sindex of
        None \<Rightarrow> Inl UndefinedBehaviour
      | Some v \<Rightarrow> impl (word_of_int v) text' entry)"

text \<open>
  A string in which \<^verbatim>\<open>atoi\<close> finds no number: after the white space and an optional
  sign, the next character is not a digit (or the string has ended).
\<close>

definition no_number :: "string \<Rightarrow> bool" where
  "no_number s =
     (case dropWhile isspace s of
        [] \<Rightarrow> True
      | c # cs \<Rightarrow>
          if c = CHR ''-'' \<or> c = CHR ''+'' then (case cs of [] \<Rightarrow> True | d # ds \<Rightarrow> \<not> isdigit d)
          else \<not> isdigit c)"

subsection \<open>Score data and configuration\<close>

text \<open>\<^verbatim>\<open>if (m_score_data) { return m_score_data->size(); } return 0;\<close>\<close>

definition getReferenceSize :: "Scorer \<Rightarrow> nat" where
  "getReferenceSize sc = (case m_score_data sc of Some data \<Rightarrow> table_size data | None \<Rightarrow> 0)"

text \<open>\<^verbatim>\<open>m_score_data = data;\<close>\<close>

definition setScoreData :: "Scorer \<Rightarrow> ScoreData option \<Rightarrow> Scorer" where
  "setScoreData sc data = sc\<lparr>m_score_data := data\<rparr>"

text \<open>
  \<^verbatim>\<open>getConfig\<close> looks the key up with \<^verbatim>\<open>m_config.find(key)\<close>, which inserts nothing.
  The result is the returned string and the scorer after the call.
\<close>

definition getConfig :: "Scorer \<Rightarrow> string \<Rightarrow> string \<Rightarrow> string \<times> Scorer" where
  "getConfig sc key def = (case m_config sc key of None \<Rightarrow> (def, sc) | Some v \<Rightarrow> (v, sc))"

subsection \<open>Preprocessing of a sentence\<close>

text \<open>
  \<^verbatim>\<open>applyFactors\<close> and \<^verbatim>\<open>applyFilter\<close> are declared in the header and defined
  elsewhere. The pieces below follow the description of the two steps in the
  specification.
\<close>

text \<open>
  Modelled from the spec: a string is split at every occurrence of a delimiter, and
  pieces are joined again with the delimiter between them.
\<close>

fun split_on :: "char \<Rightarrow> string \<Rightarrow> string list" where
  "split_on d [] = [[]]"
| "split_on d (c # cs) =
     (if c = d then [] # split_on d cs
      else (case split_on d cs of [] \<Rightarrow> [[c]] | w # ws \<Rightarrow> (c # w) # ws))"

fun join :: "char \<Rightarrow> string list \<Rightarrow> string" where
  "join d [] = []"
| "join d [w] = w"
| "join d (w # ws) = w @ d # join d ws"

text \<open>Modelled from the spec: the fixed delimiter between the factors of a token.\<close>

definition factor_delimiter :: char where
  "factor_delimiter = CHR ''/''"

text \<open>
  Modelled from the spec: the configured factor fields of one token, in the configured
  order; an index beyond what the token provides is the "invalid factor" error.
\<close>

fun select_factors :: "int list \<Rightarrow> string list \<Rightarrow> error + string list" where
  "select_factors [] parts = Inr []"
| "select_factors (f # fs) parts =
     (if 0 \<le> f \<and> nat f < length parts
      then then_call (select_factors fs parts) (\<lambda>r. Inr (parts ! nat f # r))
      else Inl InvalidFactor)"

fun factor_tokens :: "int list \<Rightarrow> string list \<Rightarrow> error + string list" where
  "factor_tokens factors [] = Inr []"
| "factor_tokens factors (t # ts) =
     then_call (select_factors factors (split_on factor_delimiter t))
       (\<lambda>parts. then_call (factor_tokens factors ts)
          (\<lambda>r. Inr (join factor_delimiter parts # r)))"

text \<open>
  Modelled from the spec: \<^verbatim>\<open>applyFactors\<close>, the factor selection. Without configured
  factors the sentence is unchanged; otherwise each white-space delimited token is
  split on the delimiter and only the configured fields are kept, rejoined with the
  same delimiter.
\<close>

definition applyFactors :: "Scorer \<Rightarrow> string \<Rightarrow> error + string" where
  "applyFactors sc sentence =
     (if m_factors sc = [] then Inr sentence
      else then_call
             (factor_tokens (m_factors sc) (filter (\<lambda>w. w \<noteq> []) (split_on (CHR '' '') sentence)))
             (\<lambda>ts. Inr (join (CHR '' '') ts)))"

text \<open>
  Modelled from the spec: \<^verbatim>\<open>applyFilter\<close>, the filter step. A configured filter
  command processes the sentence and its output is used verbatim; without a filter
  the sentence is unchanged.
\<close>

definition applyFilter :: "Scorer \<Rightarrow> string \<Rightarrow> error + string" where
  "applyFilter sc sentence = (case m_filter sc of None \<Rightarrow> Inr sentence | Some f \<Rightarrow> f sentence)"

text \<open>
  \<^verbatim>\<open>return applyFactors(applyFilter(sentence));\<close> The argument is evaluated first, so
  the filter runs before the factor selection, and an exception of the filter
  leaves \<^verbatim>\<open>applyFactors\<close> uncalled.
\<close>

definition preprocessSentence :: "Scorer \<Rightarrow> string \<Rightarrow> error + string" where
  "preprocessSentence sc sentence = then_call (applyFilter sc sentence) (applyFactors sc)"

text \<open>The order that reads factor selection first and the filter second.\<close>

definition factors_then_filter :: "Scorer \<Rightarrow> string \<Rightarrow> error + string" where
  "factors_then_filter sc sentence = then_call (applyFactors sc sentence) (applyFilter sc)"

subsection \<open>Incremental scoring\<close>

text \<open>
  \<^verbatim>\<open>score(candidates, diffs, scores)\<close> is pure virtual in \<^verbatim>\<open>Scorer\<close>; the classes
  that implement it are not part of the sources. The definitions of this subsection
  follow the two-phase scoring protocol of the specification.
\<close>

text \<open>
  Modelled from the spec: what a concrete metric supplies, the width of its statistics
  entries and the formula from an aggregated entry to the scalar score.
\<close>

record Metric =
  NumberOfScores :: nat
  calculateScore :: "ScoreStats \<Rightarrow> float"

text \<open>
  Modelled from the spec: a candidate selection gives one candidate index per sentence
  (it is read at the sentence index); a diff is a sentence index with its new
  candidate index.
\<close>

type_synonym candidates_t = "nat \<Rightarrow> nat"
type_synonym diffs_t = "(nat \<times> nat) list"

text \<open>
  Modelled from the spec: entries are combined field by field. An entry whose length
  is not \<^verbatim>\<open>NumberOfScores()\<close> is a data-shape error, fatal for the operation: entries of
  mismatched widths are never combined.
\<close>

definition add_entry :: "Metric \<Rightarrow> ScoreStats \<Rightarrow> ScoreStats \<Rightarrow> error + ScoreStats" where
  "add_entry metric a b =
     (if length a = NumberOfScores metric \<and> length b = NumberOfScores metric
      then Inr (map2 (+) a b) else Inl DataShapeMismatch)"

definition remove_entry :: "Metric \<Rightarrow> ScoreStats \<Rightarrow> ScoreStats \<Rightarrow> error + ScoreStats" where
  "remove_entry metric a b =
     (if length a = NumberOfScores metric \<and> length b = NumberOfScores metric
      then Inr (map2 (-) a b) else Inl DataShapeMismatch)"

text \<open>
  Modelled from the spec: phase A, the aggregate over all rows of the entries at the
  selected candidates, accumulated row by row.
\<close>

fun aggregate_rows ::
  "Metric \<Rightarrow> ScoreData \<Rightarrow> candidates_t \<Rightarrow> ScoreStats \<Rightarrow> nat list \<Rightarrow> error + ScoreStats" where
  "aggregate_rows metric table candidates agg [] = Inr agg"
| "aggregate_rows metric table candidates agg (s # rows) =
     then_call (add_entry metric agg (table_entry table s (candidates s)))
       (\<lambda>agg'. aggregate_rows metric table candidates agg' rows)"

definition aggregate :: "Metric \<Rightarrow> ScoreData \<Rightarrow> candidates_t \<Rightarrow> error + ScoreStats" where
  "aggregate metric table candidates =
     aggregate_rows metric table candidates (replicate (NumberOfScores metric) 0)
       [0..<table_size table]"

text \<open>
  Modelled from the spec: phase B, step 2. Each diff, in the given order, removes the
  old contribution of its row from the running aggregate, adds that of the new
  candidate and emits the score of the updated aggregate; the selection carries
  forward to the next diff.
\<close>

fun apply_diffs ::
  "Metric \<Rightarrow> ScoreData \<Rightarrow> candidates_t \<Rightarrow> ScoreStats \<Rightarrow> diffs_t \<Rightarrow> error + statscores_t" where
  "apply_diffs metric table candidates agg [] = Inr []"
| "apply_diffs metric table candidates agg ((s, c) # diffs') =
     then_call (remove_entry metric agg (table_entry table s (candidates s)))
       (\<lambda>removed. then_call (add_entry metric removed (table_entry table s c))
          (\<lambda>agg'. then_call (apply_diffs metric table (candidates(s := c)) agg' diffs')
             (\<lambda>rest. Inr (calculateScore metric agg' # rest))))"

text \<open>
  Modelled from the spec: the incremental scoring call. It fails with "score data not
  loaded" when no table is bound, and with the data-shape error when an entry has the
  wrong width; otherwise it emits the baseline score of the selection followed by
  one score per diff. The result is the sequence of scores the call emits.
\<close>

definition score :: "Scorer \<Rightarrow> Metric \<Rightarrow> candidates_t \<Rightarrow> diffs_t \<Rightarrow> error + statscores_t" where
  "score sc metric candidates diffs' =
     (case m_score_data sc of
        None \<Rightarrow> Inl ScoreDataNotLoaded
      | Some table \<Rightarrow>
          then_call (aggregate metric table candidates)
            (\<lambda>agg. then_call (apply_diffs metric table candidates agg diffs')
               (\<lambda>rest. Inr (calculateScore metric agg # rest))))"

section \<open>Example values\<close>

text \<open>
  A scorer configured with factor 0 and with the command \<^verbatim>\<open>rev\<close> (which reverses
  the characters of each line) as its filter; no score data is bound.
\<close>

definition example_scorer :: Scorer where
  "example_scorer =
     \<lparr>m_name = ''BLEU'', m_vocab = None, m_config = [''case'' \<mapsto> ''true''],
      m_factors = [0], m_filter = Some (\<lambda>s. Inr (rev s)), m_score_data = None,
      m_enable_preserve_case = True\<rparr>"

text \<open>
  The example of the specification: one sentence with two candidates, whose entries
  \<open>[matches, length]\<close> are \<open>[3, 5]\<close> and \<open>[4, 5]\<close>, scored by \<open>matches / length\<close>.
\<close>

definition example_table :: ScoreData where
  "example_table =
     \<lparr>table_size = 1, table_entry = (\<lambda>s c. if c = 0 then [3, 5] else [4, 5])\<rparr>"

definition example_metric :: Metric where
  "example_metric =
     \<lparr>NumberOfScores = 2,
      calculateScore = (\<lambda>e. fdiv (round32 (of_int (e ! 0))) (round32 (of_int (e ! 1))))\<rparr>"

text \<open>A table whose second candidate has an entry of width 1 instead of 2.\<close>

definition ragged_table :: ScoreData where
  "ragged_table =
     \<lparr>table_size = 1, table_entry = (\<lambda>s c. if c = 0 then [3, 5] else [4])\<rparr>"

text \<open>An implementation of the \<^verbatim>\<open>size_t\<close> overload that records the index it is given.\<close>

definition record_index :: "size_t \<Rightarrow> string \<Rightarrow> ScoreStats \<Rightarrow> error + ScoreStats" where
  "record_index sindex text' entry = Inr (entry @ [uint sindex])"

section \<open>Evaluation\<close>

lemmas float_eval =
  round32_def round_magnitude_def quantum_def binade_def binade_up.simps binade_down.simps
  pow2_def round_ties_even_def Let_def FLT_MAX_def float_of_size_t_def

lemmas loop_eval =
  score_min_def score_average_def score_min_loop.simps score_average_loop.simps scores_at_def

text \<open>
  Known values of binary32 arithmetic: \<^verbatim>\<open>0.1f\<close> is \<open>13421773 / 2^27\<close> and a third rounds
  up to \<open>11184811 / 2^25\<close>; integers above \<open>2^24\<close> lose their last bit, ties going to
  the even neighbour; \<^verbatim>\<open>FLT_MAX\<close> is a binary32 number, and half a quantum above it
  the result is infinite; the smallest subnormal number is \<open>2^-149\<close>, and half of it
  rounds to zero.
\<close>

lemma round32_decimal: "round32 (1 / 10) = Finite (13421773 / 2 ^ 27)"
  by (simp add: float_eval)

lemma round32_third: "round32 (1 / 3) = Finite (11184811 / 2 ^ 25)"
  by (simp add: float_eval)

lemma round32_ties:
  "round32 16777217 = Finite 16777216" "round32 16777219 = Finite 16777220"
  by (simp_all add: float_eval)

lemma round32_largest:
  "round32 FLT_MAX = Finite FLT_MAX"
  "round32 (FLT_MAX + 2 ^ 102) = Finite FLT_MAX"
  "round32 (FLT_MAX + 2 ^ 103) = PosInf"
  "round32 (- (FLT_MAX + 2 ^ 103)) = NegInf"
  by (simp_all add: float_eval)

lemma round32_subnormal:
  "round32 (1 / 2 ^ 149) = Finite (1 / 2 ^ 149)"
  "round32 (1 / 2 ^ 150) = Finite 0"
  "round32 (3 / 2 ^ 150) = Finite (1 / 2 ^ 148)"
  by (simp_all add: float_eval)

lemma float_of_size_t_rounds:
  "float_of_size_t 3 = Finite 3" "float_of_size_t 18446744073709551615 = Finite (2 ^ 64)"
  by (simp_all add: float_of_size_t_def) (simp_all add: float_eval)

section \<open>Preprocessing order\<close>

text \<open>
  Claim C1 says that \<^verbatim>\<open>preprocessSentence\<close> selects the factors first and filters
  second. On the example scorer the two orders differ: the code reverses \<^verbatim>\<open>ab/cd\<close>
  and then keeps factor 0 of the result, \<^verbatim>\<open>dc\<close>; factor selection first would keep
  \<^verbatim>\<open>ab\<close> and reverse it to \<^verbatim>\<open>ba\<close>.
\<close>

theorem preprocessSentence_not_factors_then_filter:
  "preprocessSentence example_scorer ''ab/cd'' = Inr ''dc''
   \<and> factors_then_filter example_scorer ''ab/cd'' = Inr ''ba''
   \<and> preprocessSentence example_scorer ''ab/cd'' \<noteq> factors_then_filter example_scorer ''ab/cd''"
  by (simp add: preprocessSentence_def factors_then_filter_def example_scorer_def
        applyFilter_def applyFactors_def then_call_def factor_delimiter_def)

text \<open>
  Claim C1, amended: for every sentence, \<^verbatim>\<open>preprocessSentence\<close> applies the filter
  first and the factor selection second, to the output of the filter; when the filter
  fails, so does the call.
\<close>

theorem preprocessSentence_filter_then_factors:
  "preprocessSentence sc sentence = then_call (applyFilter sc sentence) (applyFactors sc)
   \<and> (\<forall>filtered. applyFilter sc sentence = Inr filtered \<longrightarrow>
          preprocessSentence sc sentence = applyFactors sc filtered)
   \<and> (\<forall>e. applyFilter sc sentence = Inl e \<longrightarrow> preprocessSentence sc sentence = Inl e)"
  by (simp add: preprocessSentence_def then_call_def)

theorem preprocessSentence_filter_then_factors_witness:
  "preprocessSentence example_scorer ''ab/cd ef/gh'' = Inr ''hg dc''
   \<and> applyFilter example_scorer ''ab/cd ef/gh'' = Inr ''hg/fe dc/ba''
   \<and> applyFactors example_scorer ''hg/fe dc/ba'' = Inr ''hg dc''"
  using preprocessSentence_filter_then_factors [of example_scorer "''ab/cd ef/gh''"]
  by (simp add: example_scorer_def applyFilter_def applyFactors_def then_call_def
        factor_delimiter_def)

section \<open>Empty ranges\<close>

text \<open>
  Claim C2 says that \<^verbatim>\<open>score_average\<close> over an empty range raises an error and never
  returns 0. On the empty range \<open>[0, 0)\<close> the guard \<^verbatim>\<open>(end - start) < 1\<close> holds and
  the call returns 0.
\<close>

theorem score_average_empty_returns_zero:
  "(0::size_t) - 0 < 1 \<and> score_average [] 0 0 = Inr (Finite 0)"
  by (simp add: score_average_def)

text \<open>
  Claim C2, amended: when \<^verbatim>\<open>end - start < 1\<close> (in \<^verbatim>\<open>size_t\<close> arithmetic: when
  \<^verbatim>\<open>end\<close> equals \<^verbatim>\<open>start\<close>), \<^verbatim>\<open>score_average\<close> returns 0 and raises no error.
\<close>

theorem score_average_empty_range:
  "end' - start < 1 \<Longrightarrow> end' = start \<and> score_average scores start end' = Inr (Finite 0)"
  by (simp add: score_average_def)

theorem score_average_empty_range_witness:
  "(1::size_t) - 1 < 1 \<and> score_average [Finite 1, Finite 2] 1 1 = Inr (Finite 0)"
  using score_average_empty_range [of 1 1 "[Finite 1, Finite 2]"] by simp

text \<open>
  Claim C8: for an empty range (\<^verbatim>\<open>start >= end\<close>) \<^verbatim>\<open>score_min\<close> returns
  \<^verbatim>\<open>std::numeric_limits<float>::max()\<close> and raises no error.
\<close>

theorem score_min_empty_range:
  "end' \<le> start \<Longrightarrow> score_min scores start end' = Inr (Finite FLT_MAX)"
  by (simp add: score_min_def score_min_loop.simps leD)

theorem score_min_empty_range_witness:
  "(0::size_t) \<le> 1 \<and> score_min [Finite 1] 1 0 = Inr (Finite ((2 ^ 24 - 1) * 2 ^ 104))"
  using score_min_empty_range [of 0 1 "[Finite 1]"] by (simp add: FLT_MAX_def)

section \<open>Reference files and statistics extraction\<close>

text \<open>
  Claim C4 says that calling \<^verbatim>\<open>prepareStats\<close> before \<^verbatim>\<open>setReferenceFiles\<close> is
  reported as a "references not set" error. On the example scorer, on which
  \<^verbatim>\<open>setReferenceFiles\<close> was never called, the call returns normally and leaves the
  entry as it was.
\<close>

theorem prepareStats_without_references:
  "prepareStats example_scorer 0 ''the cat'' [0, 0] = Inr [0, 0]
   \<and> prepareStats example_scorer 0 ''the cat'' [0, 0] \<noteq> Inl ReferencesNotSet"
  by (simp add: prepareStats_def)

text \<open>
  Claim C4, amended: in \<^verbatim>\<open>Scorer\<close> itself, \<^verbatim>\<open>prepareStats\<close> and
  \<^verbatim>\<open>setReferenceFiles\<close> do nothing. Whether or not \<^verbatim>\<open>setReferenceFiles\<close> was called,
  \<^verbatim>\<open>prepareStats\<close> returns normally with the entry unchanged, and
  \<^verbatim>\<open>setReferenceFiles\<close> leaves the scorer unchanged; no error is reported.
\<close>

theorem prepareStats_does_nothing:
  "prepareStats sc sindex text' entry = Inr entry
   \<and> setReferenceFiles sc referenceFiles = Inr sc
   \<and> then_call (setReferenceFiles sc referenceFiles) (\<lambda>sc'. prepareStats sc' sindex text' entry)
       = prepareStats sc sindex text' entry"
  by (simp add: prepareStats_def setReferenceFiles_def then_call_def)

theorem prepareStats_does_nothing_witness:
  "prepareStats example_scorer 7 ''the cat'' [1, 2] = Inr [1, 2]
   \<and> setReferenceFiles example_scorer [''ref0'', ''ref1''] = Inr example_scorer"
  using prepareStats_does_nothing [of example_scorer 7 "''the cat''" "[1, 2]" "[''ref0'', ''ref1'']"]
  by simp

lemma no_digits_value:
  "(case t of [] \<Rightarrow> True
    | c # cs \<Rightarrow>
        if c = CHR ''-'' \<or> c = CHR ''+'' then (case cs of [] \<Rightarrow> True | d # ds \<Rightarrow> \<not> isdigit d)
        else \<not> isdigit c)
   \<Longrightarrow> (case t of [] \<Rightarrow> 0
        | c # cs \<Rightarrow>
            if c = CHR ''-'' then - digits_value 0 cs
            else if c = CHR ''+'' then digits_value 0 cs
            else digits_value 0 (c # cs)) = 0"
  by (auto split: list.splits)

lemma no_number_atoi: "no_number s \<Longrightarrow> atoi s = Some 0"
  using no_digits_value [of "dropWhile isspace s"]
  by (simp add: no_number_def atoi_def atoi_value_def)

text \<open>
  Claim C9: the string-indexed \<^verbatim>\<open>prepareStats\<close> parses the index with \<^verbatim>\<open>atoi\<close>
  and delegates to the \<^verbatim>\<open>size_t\<close> overload with the parsed value; for an index
  string in which \<^verbatim>\<open>atoi\<close> finds no number, \<^verbatim>\<open>atoi\<close> yields 0 and the call
  delegates with sentence index 0, reporting no error of its own.
\<close>

theorem prepareStats_str_delegates:
  "(\<forall>v. atoi sindex = Some v \<longrightarrow>
        prepareStats_str impl sindex text' entry = impl (word_of_int v) text' entry)
   \<and> (no_number sindex \<longrightarrow>
        atoi sindex = Some 0 \<and> prepareStats_str impl sindex text' entry = impl 0 text' entry)"
  by (auto simp: prepareStats_str_def dest: no_number_atoi)

theorem prepareStats_str_delegates_witness:
  "prepareStats_str record_index ''abc'' ''the cat'' [] = Inr [0]
   \<and> prepareStats_str record_index ''12'' ''the cat'' [] = Inr [12]
   \<and> prepareStats_str (prepareStats example_scorer) ''abc'' ''the cat'' [] = Inr []"
  using prepareStats_str_delegates [of "''abc''" record_index "''the cat''" "[]"]
    prepareStats_str_delegates [of "''12''" record_index "''the cat''" "[]"]
    prepareStats_str_delegates [of "''abc''" "prepareStats example_scorer" "''the cat''" "[]"]
  by (simp add: no_number_def isspace_def isdigit_def atoi_def atoi_value_def record_index_def
        prepareStats_def)

section \<open>Score data and configuration\<close>

text \<open>
  Claim C6: \<^verbatim>\<open>getReferenceSize\<close> returns the number of rows of the table bound with
  \<^verbatim>\<open>setScoreData\<close>, and 0 when no table is bound (the pointer is null).
\<close>

theorem getReferenceSize_bound_table:
  "getReferenceSize (setScoreData sc (Some data)) = table_size data
   \<and> getReferenceSize (setScoreData sc None) = 0
   \<and> getReferenceSize (sc\<lparr>m_score_data := None\<rparr>) = 0"
  by (simp add: getReferenceSize_def setScoreData_def)

theorem getReferenceSize_bound_table_witness:
  "getReferenceSize (setScoreData example_scorer (Some example_table)) = 1
   \<and> getReferenceSize example_scorer = 0"
  using getReferenceSize_bound_table [of example_scorer example_table]
  by (simp add: example_scorer_def example_table_def)

text \<open>
  Claim C7: \<^verbatim>\<open>getConfig(key, def)\<close> returns the value stored under the key when the
  key is present and \<^verbatim>\<open>def\<close> when it is absent, and the scorer (with its config) is
  the same after the call.
\<close>

theorem getConfig_lookup:
  "(m_config sc key = Some v \<longrightarrow> fst (getConfig sc key def) = v)
   \<and> (m_config sc key = None \<longrightarrow> fst (getConfig sc key def) = def)
   \<and> snd (getConfig sc key def) = sc"
  by (simp add: getConfig_def split: option.split)

theorem getConfig_lookup_witness:
  "fst (getConfig example_scorer ''case'' ''false'') = ''true''
   \<and> fst (getConfig example_scorer ''factors'' ''0'') = ''0''
   \<and> snd (getConfig example_scorer ''factors'' ''0'') = example_scorer"
  using getConfig_lookup [of example_scorer "''case''" "''true''" "''false''"]
    getConfig_lookup [of example_scorer "''factors''" "''true''" "''0''"]
  by (simp add: example_scorer_def)

section \<open>Incremental scoring\<close>

lemma add_entry_ok:
  "length a = NumberOfScores metric \<Longrightarrow> length b = NumberOfScores metric \<Longrightarrow>
   \<exists>r. add_entry metric a b = Inr r \<and> length r = NumberOfScores metric"
  by (simp add: add_entry_def)

lemma remove_entry_ok:
  "length a = NumberOfScores metric \<Longrightarrow> length b = NumberOfScores metric \<Longrightarrow>
   \<exists>r. remove_entry metric a b = Inr r \<and> length r = NumberOfScores metric"
  by (simp add: remove_entry_def)

lemma aggregate_rows_ok:
  assumes "\<forall>s c. length (table_entry table s c) = NumberOfScores metric"
  shows "length agg = NumberOfScores metric \<Longrightarrow>
         \<exists>r. aggregate_rows metric table candidates agg rows = Inr r
              \<and> length r = NumberOfScores metric"
proof (induction rows arbitrary: agg)
  case Nil
  then show ?case by simp
next
  case (Cons s rows)
  from add_entry_ok [OF Cons.prems, of "table_entry table s (candidates s)"] assms
  obtain agg' where "add_entry metric agg (table_entry table s (candidates s)) = Inr agg'"
    "length agg' = NumberOfScores metric"
    by auto
  with Cons.IH [of agg'] show ?case
    by (simp add: then_call_def)
qed

lemma apply_diffs_ok:
  assumes "\<forall>s c. length (table_entry table s c) = NumberOfScores metric"
  shows "length agg = NumberOfScores metric \<Longrightarrow>
         \<exists>r. apply_diffs metric table candidates agg diffs' = Inr r"
proof (induction diffs' arbitrary: agg candidates)
  case Nil
  then show ?case by simp
next
  case (Cons d diffs')
  obtain s c where d: "d = (s, c)"
    by (cases d)
  from remove_entry_ok [OF Cons.prems, of "table_entry table s (candidates s)"] assms
  obtain removed where r: "remove_entry metric agg (table_entry table s (candidates s)) = Inr removed"
    "length removed = NumberOfScores metric"
    by auto
  from add_entry_ok [OF r(2), of "table_entry table s c"] assms
  obtain agg' where a: "add_entry metric removed (table_entry table s c) = Inr agg'"
    "length agg' = NumberOfScores metric"
    by auto
  from Cons.IH [OF a(2), of "candidates(s := c)"]
  obtain rest where "apply_diffs metric table (candidates(s := c)) agg' diffs' = Inr rest"
    by blast
  with d r a show ?case
    by (simp add: then_call_def)
qed

lemma length_apply_diffs:
  "apply_diffs metric table candidates agg diffs' = Inr out \<Longrightarrow> length out = length diffs'"
proof (induction diffs' arbitrary: agg candidates out)
  case Nil
  then show ?case by simp
next
  case (Cons d diffs')
  obtain s c where d: "d = (s, c)"
    by (cases d)
  from Cons.prems d show ?case
    by (auto simp: then_call_def split: sum.splits dest: Cons.IH)
qed

text \<open>
  Claim C3: for every candidate selection and every list of diffs, an incremental
  scoring call that returns emits exactly \<^verbatim>\<open>diffs.size() + 1\<close> scores, the baseline
  score followed by one score per diff; and the call returns whenever a table is
  bound whose entries all have the width \<^verbatim>\<open>NumberOfScores()\<close>.
\<close>

theorem score_output_length:
  "(\<forall>out. score sc metric candidates diffs' = Inr out \<longrightarrow> length out = length diffs' + 1)
   \<and> (m_score_data sc = Some table
        \<and> (\<forall>s c. length (table_entry table s c) = NumberOfScores metric)
      \<longrightarrow> (\<exists>out. score sc metric candidates diffs' = Inr out \<and> length out = length diffs' + 1))"
proof (intro conjI allI impI)
  fix out
  assume "score sc metric candidates diffs' = Inr out"
  then show "length out = length diffs' + 1"
    by (auto simp: score_def then_call_def split: option.splits sum.splits
          dest: length_apply_diffs)
next
  assume h: "m_score_data sc = Some table
             \<and> (\<forall>s c. length (table_entry table s c) = NumberOfScores metric)"
  then have shape: "\<forall>s c. length (table_entry table s c) = NumberOfScores metric"
    by simp
  from aggregate_rows_ok [OF shape, of "replicate (NumberOfScores metric) 0" candidates
      "[0..<table_size table]"]
  obtain agg where agg: "aggregate metric table candidates = Inr agg"
    "length agg = NumberOfScores metric"
    by (auto simp: aggregate_def)
  from apply_diffs_ok [OF shape agg(2), of candidates diffs']
  obtain rest where rest: "apply_diffs metric table candidates agg diffs' = Inr rest"
    by auto
  with agg h length_apply_diffs [OF rest]
  show "\<exists>out. score sc metric candidates diffs' = Inr out \<and> length out = length diffs' + 1"
    by (simp add: score_def then_call_def)
qed

theorem score_output_length_witness:
  "score (setScoreData example_scorer (Some example_table)) example_metric (\<lambda>s. 0) [(0, 1)]
       = Inr [Finite (5033165 / 2 ^ 23), Finite (13421773 / 2 ^ 24)]
   \<and> score (setScoreData example_scorer (Some example_table)) example_metric (\<lambda>s. 0) []
       = Inr [Finite (5033165 / 2 ^ 23)]"
proof -
  have bound: "m_score_data (setScoreData example_scorer (Some example_table)) = Some example_table
     \<and> (\<forall>s c. length (table_entry example_table s c) = NumberOfScores example_metric)"
    by (simp add: setScoreData_def example_table_def example_metric_def)
  from score_output_length [of "setScoreData example_scorer (Some example_table)" example_metric
      "\<lambda>s. 0" "[(0, 1)]" example_table] bound
  obtain out where
    "score (setScoreData example_scorer (Some example_table)) example_metric (\<lambda>s. 0) [(0, 1)] = Inr out"
    "length out = length [(0::nat, 1::nat)] + 1"
    by blast
  moreover have "score (setScoreData example_scorer (Some example_table)) example_metric (\<lambda>s. 0) [(0, 1)]
       = Inr [Finite (5033165 / 2 ^ 23), Finite (13421773 / 2 ^ 24)]"
    apply (simp add: score_def setScoreData_def example_scorer_def example_table_def
      example_metric_def aggregate_def add_entry_def remove_entry_def then_call_def)
    apply (simp add: float_eval)
    done
  moreover have "score (setScoreData example_scorer (Some example_table)) example_metric (\<lambda>s. 0) []
       = Inr [Finite (5033165 / 2 ^ 23)]"
    apply (simp add: score_def setScoreData_def example_scorer_def example_table_def
      example_metric_def aggregate_def add_entry_def remove_entry_def then_call_def)
    apply (simp add: float_eval)
    done
  ultimately show ?thesis by simp
qed

text \<open>
  The two failures of the call: no table bound, and an entry of the wrong width.
\<close>

lemma score_rejects_ragged:
  "score (setScoreData example_scorer (Some ragged_table)) example_metric (\<lambda>s. 0) [(0, 1)]
     = Inl DataShapeMismatch"
  by (simp add: score_def setScoreData_def example_scorer_def ragged_table_def
      example_metric_def aggregate_def add_entry_def remove_entry_def then_call_def)

lemma score_unbound: "score example_scorer example_metric (\<lambda>s. 0) [(0, 1)] = Inl ScoreDataNotLoaded"
  by (simp add: score_def example_scorer_def)

section \<open>The regularisation strategies read only their range\<close>

lemma succ_le: "(i::size_t) < e \<Longrightarrow> i + 1 \<le> k \<Longrightarrow> i \<le> k"
  by unat_arith

lemma score_min_loop_agree:
  "(\<And>k. i \<le> k \<Longrightarrow> k < end' \<Longrightarrow> scores_at xs k = scores_at ys k)
   \<Longrightarrow> score_min_loop xs i end' m = score_min_loop ys i end' m"
proof (induction xs i end' m rule: score_min_loop.induct)
  case (1 scores i end' min')
  show ?case
  proof (cases "i < end'")
    case False
    then show ?thesis by (simp add: score_min_loop.simps)
  next
    case True
    have here: "scores_at scores i = scores_at ys i"
      using "1.prems" True by simp
    show ?thesis
    proof (cases "scores_at scores i")
      case None
      with here True show ?thesis
        by (simp add: score_min_loop.simps [of scores i] score_min_loop.simps [of ys i])
    next
      case (Some x)
      have "score_min_loop scores (i + 1) end' (if fless x min' then x else min')
            = score_min_loop ys (i + 1) end' (if fless x min' then x else min')"
        using True Some "1.prems" by (intro "1.IH") (auto intro: succ_le)
      moreover have "scores_at ys i = Some x"
        using here Some by simp
      ultimately show ?thesis
        using Some True
        by (simp add: score_min_loop.simps [of scores i] score_min_loop.simps [of ys i])
    qed
  qed
qed

lemma score_average_loop_agree:
  "(\<And>k. j \<le> k \<Longrightarrow> k < end' \<Longrightarrow> scores_at xs k = scores_at ys k)
   \<Longrightarrow> score_average_loop xs j end' t = score_average_loop ys j end' t"
proof (induction xs j end' t rule: score_average_loop.induct)
  case (1 scores j end' total')
  show ?case
  proof (cases "j < end'")
    case False
    then show ?thesis by (simp add: score_average_loop.simps)
  next
    case True
    have here: "scores_at scores j = scores_at ys j"
      using "1.prems" True by simp
    show ?thesis
    proof (cases "scores_at scores j")
      case None
      with here True show ?thesis
        by (simp add: score_average_loop.simps [of scores j] score_average_loop.simps [of ys j])
    next
      case (Some x)
      have "score_average_loop scores (j + 1) end' (fadd total' x)
            = score_average_loop ys (j + 1) end' (fadd total' x)"
        using True Some "1.prems" by (intro "1.IH") (auto intro: succ_le)
      moreover have "scores_at ys j = Some x"
        using here Some by simp
      ultimately show ?thesis
        using Some True
        by (simp add: score_average_loop.simps [of scores j] score_average_loop.simps [of ys j])
    qed
  qed
qed

text \<open>
  Claim C10: \<^verbatim>\<open>score_min\<close> and \<^verbatim>\<open>score_average\<close> depend only on the elements of
  the range \<open>[start, end)\<close>. Two score sequences that agree at every index of the
  range (the read \<^verbatim>\<open>scores[k]\<close> gives the same element in both) give equal results,
  whatever they hold outside the range.
\<close>

theorem regularisation_depends_on_range:
  assumes "\<forall>k. start \<le> k \<and> k < end' \<longrightarrow> scores_at xs k = scores_at ys k"
  shows "score_min xs start end' = score_min ys start end'
       \<and> score_average xs start end' = score_average ys start end'"
  using assms
  by (simp add: score_min_def score_average_def score_min_loop_agree [of start end' xs ys]
        score_average_loop_agree [of start end' xs ys])

lemma between_1_3: "(1::size_t) \<le> k \<Longrightarrow> k < 3 \<Longrightarrow> k = 1 \<or> k = 2"
  by unat_arith

theorem regularisation_depends_on_range_witness:
  "score_min [Finite 5, Finite 2, Finite 3, NaN] 1 3 = score_min [NegInf, Finite 2, Finite 3] 1 3
   \<and> score_min [NegInf, Finite 2, Finite 3] 1 3 = Inr (Finite 2)
   \<and> score_average [Finite 5, Finite 2, Finite 3, NaN] 1 3
       = score_average [NegInf, Finite 2, Finite 3] 1 3
   \<and> score_average [NegInf, Finite 2, Finite 3] 1 3 = Inr (Finite (5 / 2))"
proof -
  have "\<forall>k. (1::size_t) \<le> k \<and> k < 3 \<longrightarrow>
          scores_at [Finite 5, Finite 2, Finite 3, NaN] k
            = scores_at [NegInf, Finite 2, Finite 3] k"
  proof (intro allI impI)
    fix k :: size_t
    assume "1 \<le> k \<and> k < 3"
    then have "k = 1 \<or> k = 2"
      by (simp add: between_1_3)
    then show "scores_at [Finite 5, Finite 2, Finite 3, NaN] k
                 = scores_at [NegInf, Finite 2, Finite 3] k"
      by (auto simp: scores_at_def)
  qed
  then have "score_min [Finite 5, Finite 2, Finite 3, NaN] 1 3
               = score_min [NegInf, Finite 2, Finite 3] 1 3
             \<and> score_average [Finite 5, Finite 2, Finite 3, NaN] 1 3
               = score_average [NegInf, Finite 2, Finite 3] 1 3"
    by (rule regularisation_depends_on_range)
  moreover have "score_min [NegInf, Finite 2, Finite 3] 1 3 = Inr (Finite 2)"
    by (simp add: loop_eval FLT_MAX_def)
  moreover have "score_average [NegInf, Finite 2, Finite 3] 1 3 = Inr (Finite (5 / 2))"
    by (simp add: loop_eval float_eval)
  ultimately show ?thesis
    by simp
qed

section \<open>Minimum against average\<close>


text \<open>
  The comparison fails as well when the sum overflows, and when a score is a NaN,
  which \<^verbatim>\<open>score_min\<close> skips and \<^verbatim>\<open>score_average\<close> propagates.
\<close>

lemma min_above_average_by_overflow:
  "score_min [Finite (- FLT_MAX), Finite (- FLT_MAX)] 0 2 = Inr (Finite (- FLT_MAX))
   \<and> score_average [Finite (- FLT_MAX), Finite (- FLT_MAX)] 0 2 = Inr NegInf
   \<and> \<not> min_le_average [Finite (- FLT_MAX), Finite (- FLT_MAX)] 0 2"
  by (simp add: min_le_average_def float_eval loop_eval)

lemma min_above_average_by_nan:
  "score_min [NaN] 0 1 = Inr (Finite FLT_MAX)
   \<and> score_average [NaN] 0 1 = Inr NaN
   \<and> \<not> min_le_average [NaN] 0 1"
  by (simp add: min_le_average_def float_eval loop_eval)













text \<open>The third addition rounds on the three scores \<^verbatim>\<open>0.45f\<close> above.\<close>

lemma rounding_on_example:
  "\<not> no_rounding [Finite (7549747 / 2 ^ 24), Finite (7549747 / 2 ^ 24), Finite (7549747 / 2 ^ 24)] 0 3"
  apply (simp add: no_rounding_def range_scores_def exact_mean_def float_of_size_t_def)
  apply (simp add: float_eval)
  done

end
